theory Spec2Isabelle
  imports Complex_Main "HOL-Library.AList"
begin

section \<open>Data model of animated-character.js\<close>

text \<open>
  Numbers are modelled as integers (pixel geometry, frame indices) and as reals (playback
  speeds, which the code only stores and hands on). A plain JavaScript object is an
  association list in insertion order: \<open>obj[k] = v\<close> is \<open>AList.update k v\<close> (an
  existing key keeps its position, a new key goes last), \<open>obj[k]\<close> is \<open>map_of obj k\<close>
  with \<open>None\<close> for \<open>undefined\<close>, and \<open>Object.keys(obj)\<close> is \<open>map fst obj\<close>.
  Property names are strings that are neither array indices (which JavaScript enumerates
  first) nor names inherited from \<open>Object.prototype\<close>.
\<close>

type_synonym 'v js_object = "(string \<times> 'v) list"

text \<open>The spritesheet image: only \<open>baseTexture.width\<close> and \<open>baseTexture.height\<close> are read.\<close>

record base_texture =
  width :: int
  height :: int

text \<open>\<open>new PIXI.Rectangle(x, y, width, height)\<close>\<close>

record rectangle =
  rect_x :: int
  rect_y :: int
  rect_width :: int
  rect_height :: int

text \<open>
  \<open>PIXI.Texture.EMPTY\<close>, the placeholder of the constructor, and
  \<open>new PIXI.Texture({source: baseTexture, frame: frame})\<close>.
\<close>

datatype texture = EMPTY | Texture base_texture rectangle

text \<open>The object literal that \<open>addAnimation\<close> stores under \<open>this.animations[name]\<close>.\<close>

record animation_entry =
  entry_textures :: "texture list js_object"
  entry_frameCount :: int
  entry_speed :: real
  entry_directions :: "string list"

text \<open>The object that \<open>createFrameTextures\<close> returns.\<close>

record slice_result =
  textureData :: "texture list js_object"
  frameCount :: int

text \<open>
  What the code can throw: the \<open>TypeError\<close> of using \<open>undefined\<close> as a frame
  sequence, and the rejection of \<open>PIXI.Assets.load\<close>, with its message.
\<close>

datatype js_error = TypeError | AssetError string

text \<open>
  The calls that the controller makes on the sprite it extends, in the order it makes
  them. The list is kept beside the sprite's fields so that "the host was not touched" can
  be stated whatever the host does inside.
\<close>

datatype host_call =
    SetTextures "texture list"
  | SetAnimationSpeed real
  | GotoAndPlay int
  | GotoAndStop int
  | SetVisible bool

text \<open>The console output of the file, one constructor per message.\<close>

datatype console_msg =
    ErrorNoExiste string
  | LogCreando nat
  | LogCargada string int
  | WarnErrorCargando string js_error
  | LogPersonajeCreado nat nat
  | WarnFallidas "string list"

text \<open>
  \<open>this\<close>: the fields the constructor declares (\<open>animations\<close>, \<open>currentAnimation\<close>,
  \<open>currentDirection\<close>, \<open>speed\<close>), the fields of \<open>PIXI.AnimatedSprite\<close> that the code
  reads or writes (\<open>textures\<close>, \<open>animationSpeed\<close>, \<open>playing\<close>, \<open>currentFrame\<close>,
  \<open>visible\<close>), and the two logs.
\<close>

record AnimatedCharacter =
  animations :: "animation_entry js_object"
  currentAnimation :: "string option"
  currentDirection :: string
  speed :: int
  textures :: "texture list"
  animationSpeed :: real
  playing :: bool
  currentFrame :: int
  visible :: bool
  hostCalls :: "host_call list"
  console :: "console_msg list"

section \<open>The sprite host\<close>

text \<open>
  Modelled from the spec: \<open>PIXI.AnimatedSprite\<close> is a library outside the repository. Its
  part is taken from the host contract of the spec (section 6): a settable frame sequence
  and playback speed, a readable play flag and frame index, seek-and-play, seek-and-pause
  and a settable visibility. Each operation stores what it is given and records the call.
\<close>

definition set_textures :: "AnimatedCharacter \<Rightarrow> texture list \<Rightarrow> AnimatedCharacter" where
  "set_textures this seq =
     this\<lparr>textures := seq, hostCalls := hostCalls this @ [SetTextures seq]\<rparr>"

definition set_animationSpeed :: "AnimatedCharacter \<Rightarrow> real \<Rightarrow> AnimatedCharacter" where
  "set_animationSpeed this v =
     this\<lparr>animationSpeed := v, hostCalls := hostCalls this @ [SetAnimationSpeed v]\<rparr>"

definition gotoAndPlay :: "AnimatedCharacter \<Rightarrow> int \<Rightarrow> AnimatedCharacter" where
  "gotoAndPlay this frameNumber =
     this\<lparr>currentFrame := frameNumber, playing := True,
          hostCalls := hostCalls this @ [GotoAndPlay frameNumber]\<rparr>"

definition gotoAndStop :: "AnimatedCharacter \<Rightarrow> int \<Rightarrow> AnimatedCharacter" where
  "gotoAndStop this frameNumber =
     this\<lparr>currentFrame := frameNumber, playing := False,
          hostCalls := hostCalls this @ [GotoAndStop frameNumber]\<rparr>"

definition set_visible :: "AnimatedCharacter \<Rightarrow> bool \<Rightarrow> AnimatedCharacter" where
  "set_visible this b =
     this\<lparr>visible := b, hostCalls := hostCalls this @ [SetVisible b]\<rparr>"

section \<open>AnimatedCharacter\<close>

text \<open>
  The constructor: \<open>super([PIXI.Texture.EMPTY])\<close>, the four fields, \<open>this.play()\<close> and
  \<open>this.visible = false\<close>. The anchor is display geometry and is left out; the two logs
  start empty.
\<close>

definition new_AnimatedCharacter :: AnimatedCharacter where
  "new_AnimatedCharacter =
     \<lparr>animations = [], currentAnimation = None, currentDirection = ''down'', speed = 5,
      textures = [EMPTY], animationSpeed = 1, playing = True, currentFrame = 0,
      visible = False, hostCalls = [], console = []\<rparr>"

text \<open>
  JavaScript truthiness of \<open>this.currentAnimation\<close>, which is \<open>null\<close> or a string:
  \<open>null\<close> and the empty string are falsy.
\<close>

definition truthy :: "string option \<Rightarrow> bool" where
  "truthy v = (case v of None \<Rightarrow> False | Some s \<Rightarrow> s \<noteq> [])"

text \<open>
  Lines 204-216: \<open>null\<close> takes the current direction; a direction with no sequence in the
  entry is replaced by \<open>Object.keys(textures)[0]\<close>, which is \<open>undefined\<close> (here \<open>None\<close>)
  when the entry has no direction at all.
\<close>

definition resolveDirection ::
  "AnimatedCharacter \<Rightarrow> animation_entry \<Rightarrow> string option \<Rightarrow> string option" where
  "resolveDirection this entry direction =
     (let direction1 = (case direction of None \<Rightarrow> currentDirection this | Some d \<Rightarrow> d)
      in case map_of (entry_textures entry) direction1 of
           Some seq \<Rightarrow> Some direction1
         | None \<Rightarrow>
             (case map fst (entry_textures entry) of [] \<Rightarrow> None | k # ks \<Rightarrow> Some k))"

text \<open>
  \<open>changeAnimation(animationName, direction = null)\<close>. The result is the error thrown, if
  any, and the object as the call leaves it. The play flag and the frame index are read
  (lines 226-227) before the sprite is given its new sequence. When the resolved direction
  is \<open>undefined\<close> the entry has no sequence for it: line 232 hands \<open>undefined\<close> to the
  sprite as its frame sequence and line 241 reads the length of \<open>undefined\<close>. That is the
  \<open>TypeError\<close>; it is raised where \<open>undefined\<close> first reaches the sprite, before
  anything is stored.
\<close>

definition changeAnimation ::
  "AnimatedCharacter \<Rightarrow> string \<Rightarrow> string option \<Rightarrow> js_error option \<times> AnimatedCharacter" where
  "changeAnimation this animationName direction =
     (case map_of (animations this) animationName of
        None \<Rightarrow> (None, this\<lparr>console := console this @ [ErrorNoExiste animationName]\<rparr>)
      | Some entry \<Rightarrow>
          (let direction2 = resolveDirection this entry direction
           in if currentAnimation this \<noteq> Some animationName
                 \<or> Some (currentDirection this) \<noteq> direction2
              then
                (case direction2 of
                   None \<Rightarrow> (Some TypeError, this)
                 | Some d \<Rightarrow>
                     (case map_of (entry_textures entry) d of
                        None \<Rightarrow> (Some TypeError, this)
                      | Some seq \<Rightarrow>
                          (let wasPlaying = playing this;
                               currentFrame0 = currentFrame this;
                               this1 = set_textures this seq;
                               this2 = set_animationSpeed this1 (entry_speed entry);
                               newAnimationFrameCount = int (length seq);
                               targetFrame = min currentFrame0 (newAnimationFrameCount - 1);
                               this3 = (if wasPlaying then gotoAndPlay this2 targetFrame
                                        else gotoAndStop this2 targetFrame)
                           in (None, this3\<lparr>currentAnimation := Some animationName,
                                             currentDirection := d\<rparr>))))
              else (None, this)))"

text \<open>
  \<open>addAnimation(name, textureData, frameCount, speed = 0.15)\<close>: the entry is stored, and
  when \<open>this.currentAnimation\<close> is falsy the sprite is made visible and the animation is
  activated; an error of \<open>changeAnimation\<close> leaves through \<open>addAnimation\<close>.
\<close>

definition addAnimation ::
  "AnimatedCharacter \<Rightarrow> string \<Rightarrow> texture list js_object \<Rightarrow> int \<Rightarrow> real option
     \<Rightarrow> js_error option \<times> AnimatedCharacter" where
  "addAnimation this name textureData0 frameCount0 speed0 =
     (let this1 = this\<lparr>animations :=
                    AList.update name
                      \<lparr>entry_textures = textureData0,
                       entry_frameCount = frameCount0,
                       entry_speed = (case speed0 of None \<Rightarrow> 0.15 | Some v \<Rightarrow> v),
                       entry_directions = map fst textureData0\<rparr>
                      (animations this)\<rparr>
      in if \<not> truthy (currentAnimation this1)
         then changeAnimation (set_visible this1 True) name (Some (currentDirection this1))
         else (None, this1))"

text \<open>\<open>changeDirection(direction)\<close>\<close>

definition changeDirection ::
  "AnimatedCharacter \<Rightarrow> string \<Rightarrow> js_error option \<times> AnimatedCharacter" where
  "changeDirection this direction =
     (case currentAnimation this of
        Some name \<Rightarrow>
          (if truthy (Some name) then changeAnimation this name (Some direction)
           else (None, this))
      | None \<Rightarrow> (None, this))"

section \<open>TextureFactory\<close>

text \<open>
  \<open>directions[rowIndex]\<close> as a property key: past the end of the array the value is
  \<open>undefined\<close>, and \<open>textureData[undefined]\<close> is the property named \<open>undefined\<close>.
\<close>

definition direction_key :: "string list \<Rightarrow> int \<Rightarrow> string" where
  "direction_key directions rowIndex =
     (if 0 \<le> rowIndex \<and> nat rowIndex < length directions then directions ! nat rowIndex
      else ''undefined'')"

text \<open>The rectangle and texture of lines 416-429.\<close>

definition frame_texture :: "base_texture \<Rightarrow> int \<Rightarrow> int \<Rightarrow> int \<Rightarrow> int \<Rightarrow> texture" where
  "frame_texture baseTexture frameWidth frameHeight rowIndex i =
     Texture baseTexture
       \<lparr>rect_x = i * frameWidth, rect_y = rowIndex * frameHeight,
        rect_width = frameWidth, rect_height = frameHeight\<rparr>"

text \<open>The inner loop, lines 412-433: \<open>arr\<close> is the array \<open>textureData[direction]\<close>.\<close>

function frame_loop ::
  "base_texture \<Rightarrow> int \<Rightarrow> int \<Rightarrow> int \<Rightarrow> int \<Rightarrow> int \<Rightarrow> texture list \<Rightarrow> texture list" where
  "frame_loop baseTexture frameWidth frameHeight rowIndex frameCount0 i arr =
     (if i < frameCount0
      then frame_loop baseTexture frameWidth frameHeight rowIndex frameCount0 (i + 1)
             (arr @ [frame_texture baseTexture frameWidth frameHeight rowIndex i])
      else arr)"
  by pat_completeness auto
termination
  by (relation "measure (\<lambda>(b, fw, fh, r, n, i, arr). nat (n - i))") auto

declare frame_loop.simps [simp del]

text \<open>The outer loop, lines 407-434.\<close>

function row_loop ::
  "base_texture \<Rightarrow> int \<Rightarrow> int \<Rightarrow> string list \<Rightarrow> int \<Rightarrow> int \<Rightarrow> int
     \<Rightarrow> texture list js_object \<Rightarrow> texture list js_object" where
  "row_loop baseTexture frameWidth frameHeight directions frameCount0 rowCount rowIndex td =
     (if rowIndex < rowCount
      then
        (let direction = direction_key directions rowIndex;
             td1 = AList.update direction [] td;
             arr = frame_loop baseTexture frameWidth frameHeight rowIndex frameCount0 0 []
         in row_loop baseTexture frameWidth frameHeight directions frameCount0 rowCount
              (rowIndex + 1) (AList.update direction arr td1))
      else td)"
  by pat_completeness auto
termination
  by (relation "measure (\<lambda>(b, fw, fh, ds, n, m, r, td). nat (m - r))") auto

declare row_loop.simps [simp del]

text \<open>
  \<open>createFrameTextures(baseTexture, frameWidth, frameHeight, directions)\<close>. With a frame
  dimension of zero the divisions give \<open>Infinity\<close> or \<open>NaN\<close>, which the integer model does
  not hold: the result is \<open>None\<close> there. \<open>Math.floor\<close> of the quotient is \<open>div\<close> on
  \<open>int\<close>.
\<close>

definition createFrameTextures ::
  "base_texture \<Rightarrow> int \<Rightarrow> int \<Rightarrow> string list \<Rightarrow> slice_result option" where
  "createFrameTextures baseTexture frameWidth frameHeight directions =
     (if frameWidth = 0 \<or> frameHeight = 0 then None
      else
        (let frameCount0 = width baseTexture div frameWidth;
             rowCount = height baseTexture div frameHeight
         in Some \<lparr>textureData =
                    row_loop baseTexture frameWidth frameHeight directions frameCount0
                      rowCount 0 [],
                  frameCount = frameCount0\<rparr>))"

section \<open>The factory\<close>






section \<open>Notions used in the statements\<close>

text \<open>The textures of row \<open>r\<close> in column order, as the inner loop builds them.\<close>

definition row_textures :: "base_texture \<Rightarrow> int \<Rightarrow> int \<Rightarrow> int \<Rightarrow> int \<Rightarrow> texture list" where
  "row_textures b fw fh n r = map (frame_texture b fw fh r) [0..n - 1]"

text \<open>
  A texture's rectangle lies inside the image: it covers the pixels
  \<open>[x, x + width) \<times> [y, y + height)\<close>, within \<open>[0, image.width) \<times> [0, image.height)\<close>.
\<close>

fun within_image :: "base_texture \<Rightarrow> texture \<Rightarrow> bool" where
  "within_image b EMPTY = False"
| "within_image b (Texture src r) =
     (0 \<le> rect_x r \<and> rect_x r + rect_width r \<le> width b \<and>
      0 \<le> rect_y r \<and> rect_y r + rect_height r \<le> height b)"



text \<open>
  The invariant of the state (spec, section 3): when \<open>currentAnimation\<close> is not \<open>null\<close>
  it is a key of the registry, and \<open>currentDirection\<close> is a key of that entry's mapping.
\<close>

definition state_invariant :: "AnimatedCharacter \<Rightarrow> bool" where
  "state_invariant this =
     (case currentAnimation this of
        None \<Rightarrow> True
      | Some name \<Rightarrow>
          (case map_of (animations this) name of
             None \<Rightarrow> False
           | Some entry \<Rightarrow> currentDirection this \<in> set (map fst (entry_textures entry))))"

text \<open>
  An example: a new character is given a 12-frame \<open>run\<close> and a 6-frame \<open>walk\<close>, and
  the sprite's clock has then taken \<open>run\<close> to frame index 9.
\<close>

definition run_entry :: animation_entry where
  "run_entry = \<lparr>entry_textures = [(''down'', replicate 12 EMPTY)], entry_frameCount = 12,
                 entry_speed = 0.15, entry_directions = [''down'']\<rparr>"

definition walk_entry :: animation_entry where
  "walk_entry = \<lparr>entry_textures = [(''down'', replicate 6 EMPTY)], entry_frameCount = 6,
                  entry_speed = 0.1, entry_directions = [''down'']\<rparr>"

definition running_at_frame_9 :: AnimatedCharacter where
  "running_at_frame_9 =
     (snd (addAnimation
             (snd (addAnimation new_AnimatedCharacter ''run''
                     [(''down'', replicate 12 EMPTY)] 12 (Some 0.15)))
             ''walk'' [(''down'', replicate 6 EMPTY)] 6 (Some 0.1)))
       \<lparr>currentFrame := 9\<rparr>"


section \<open>The slicer\<close>

lemma frame_loop_upto:
  "frame_loop b fw fh r n i arr = arr @ map (frame_texture b fw fh r) [i..n - 1]"
proof (induction b fw fh r n i arr rule: frame_loop.induct)
  case (1 b fw fh r n i arr)
  show ?case
  proof (cases "i < n")
    case True
    then have "[i..n - 1] = i # [i + 1..n - 1]"
      by (simp add: upto_rec1)
    with True "1.IH" show ?thesis
      by (subst frame_loop.simps) simp
  next
    case False
    then show ?thesis
      by (subst frame_loop.simps) simp
  qed
qed

lemma frame_loop_row: "frame_loop b fw fh r n 0 [] = row_textures b fw fh n r"
  by (simp add: frame_loop_upto row_textures_def)

lemma length_row_textures: "length (row_textures b fw fh n r) = nat n"
  by (simp add: row_textures_def)

lemma set_update_subset: "set (AList.update k v al) \<subseteq> insert (k, v) (set al)"
  by (induction al) auto

lemma row_loop_bindings:
  "(k, v) \<in> set (row_loop b fw fh ds n m r td) \<Longrightarrow>
     (k, v) \<in> set td \<or>
     (\<exists>r'. r \<le> r' \<and> r' < m \<and> k = direction_key ds r' \<and> v = row_textures b fw fh n r')"
proof (induction b fw fh ds n m r td rule: row_loop.induct)
  case (1 b fw fh ds n m r td)
  show ?case
  proof (cases "r < m")
    case True
    let ?k = "direction_key ds r"
    let ?td = "AList.update ?k (row_textures b fw fh n r) td"
    from True "1.prems" have "(k, v) \<in> set (row_loop b fw fh ds n m (r + 1) ?td)"
      by (subst (asm) row_loop.simps) (simp add: frame_loop_row)
    with True "1.IH" [OF True refl refl refl]
    have "(k, v) \<in> set ?td \<or>
      (\<exists>r'. r + 1 \<le> r' \<and> r' < m \<and> k = direction_key ds r' \<and> v = row_textures b fw fh n r')"
      by (simp add: frame_loop_row)
    then show ?thesis
    proof
      assume "(k, v) \<in> set ?td"
      with set_update_subset have "(k, v) = (?k, row_textures b fw fh n r) \<or> (k, v) \<in> set td"
        by fastforce
      with True show ?thesis by auto
    next
      assume "\<exists>r'. r + 1 \<le> r' \<and> r' < m \<and> k = direction_key ds r' \<and> v = row_textures b fw fh n r'"
      then obtain r' where "r + 1 \<le> r'" "r' < m" "k = direction_key ds r'" "v = row_textures b fw fh n r'"
        by blast
      then have "r \<le> r' \<and> r' < m \<and> k = direction_key ds r' \<and> v = row_textures b fw fh n r'"
        by simp
      then show ?thesis by blast
    qed
  next
    case False
    with "1.prems" show ?thesis
      by (subst (asm) row_loop.simps) simp
  qed
qed


lemma row_loop_done: "\<not> r < m \<Longrightarrow> row_loop b fw fh ds n m r td = td"
  by (subst row_loop.simps) simp

lemma row_loop_step:
  "r < m \<Longrightarrow> row_loop b fw fh ds n m r td =
     row_loop b fw fh ds n m (r + 1) (AList.update (direction_key ds r) (row_textures b fw fh n r) td)"
  by (subst row_loop.simps) (simp add: frame_loop_row)

lemma row_loop_keys:
  "fst ` set (row_loop b fw fh ds n m r td) = fst ` set td \<union> direction_key ds ` {r..<m}"
proof (induction b fw fh ds n m r td rule: row_loop.induct)
  case (1 b fw fh ds n m r td)
  show ?case
  proof (cases "r < m")
    case True
    then have split: "{r..<m} = insert r {r + 1..<m}"
      by auto
    from True "1.IH" [OF True refl refl refl]
    have "fst ` set (row_loop b fw fh ds n m r td) =
            fst ` set (AList.update (direction_key ds r) (row_textures b fw fh n r) td)
              \<union> direction_key ds ` {r + 1..<m}"
      by (simp add: row_loop_step frame_loop_row)
    then show ?thesis
      by (simp add: dom_update split)
  next
    case False
    then show ?thesis
      by (simp add: row_loop_done)
  qed
qed

lemma row_loop_untouched:
  "\<forall>r'. r \<le> r' \<and> r' < m \<longrightarrow> direction_key ds r' \<noteq> k \<Longrightarrow>
     map_of (row_loop b fw fh ds n m r td) k = map_of td k"
proof (induction b fw fh ds n m r td rule: row_loop.induct)
  case (1 b fw fh ds n m r td)
  show ?case
  proof (cases "r < m")
    case True
    from "1.prems" have later: "\<forall>r'. r + 1 \<le> r' \<and> r' < m \<longrightarrow> direction_key ds r' \<noteq> k"
      by simp
    from "1.prems" True have here: "direction_key ds r \<noteq> k"
      by simp
    from "1.IH" [OF True refl refl refl later] True here show ?thesis
      by (simp add: row_loop_step frame_loop_row update_conv')
  next
    case False
    then show ?thesis
      by (simp add: row_loop_done)
  qed
qed

lemma row_loop_last_writer:
  "r \<le> q \<Longrightarrow> q < m \<Longrightarrow>
   \<forall>r'. q < r' \<and> r' < m \<longrightarrow> direction_key ds r' \<noteq> direction_key ds q \<Longrightarrow>
     map_of (row_loop b fw fh ds n m r td) (direction_key ds q) = Some (row_textures b fw fh n q)"
proof (induction b fw fh ds n m r td rule: row_loop.induct)
  case (1 b fw fh ds n m r td)
  from "1.prems" have True: "r < m"
    by simp
  show ?case
  proof (cases "r = q")
    case True
    with "1.prems" have "\<forall>r'. r + 1 \<le> r' \<and> r' < m \<longrightarrow> direction_key ds r' \<noteq> direction_key ds q"
      by simp
    then have "map_of (row_loop b fw fh ds n m (r + 1)
                 (AList.update (direction_key ds r) (row_textures b fw fh n r) td)) (direction_key ds q)
               = map_of (AList.update (direction_key ds r) (row_textures b fw fh n r) td) (direction_key ds q)"
      by (rule row_loop_untouched)
    with True \<open>r < m\<close> show ?thesis
      by (simp add: row_loop_step update_conv')
  next
    case False
    with "1.prems" have "r + 1 \<le> q"
      by simp
    from "1.IH" [OF \<open>r < m\<close> refl refl refl this "1.prems"(2) "1.prems"(3)] \<open>r < m\<close>
    show ?thesis
      by (simp add: row_loop_step frame_loop_row)
  qed
qed

lemma row_loop_nonempty: "r < m \<Longrightarrow> row_loop b fw fh ds n m r td \<noteq> []"
proof -
  assume "r < m"
  then have "direction_key ds r \<in> fst ` set (row_loop b fw fh ds n m r td)"
    by (simp add: row_loop_keys)
  then show ?thesis by auto
qed

lemma div_mult_le_int: "0 < (d::int) \<Longrightarrow> 0 \<le> c \<Longrightarrow> c < w div d \<Longrightarrow> c * d + d \<le> w"
proof -
  assume d: "0 < d" and "0 \<le> c" and c: "c < w div d"
  from c have "c + 1 \<le> w div d" by simp
  with d have "(c + 1) * d \<le> (w div d) * d"
    by (simp add: mult_right_mono)
  also from d have "(w div d) * d \<le> w"
    by (metis mult.commute pos_mod_sign add.commute add_increasing2 mult_div_mod_eq order_refl less_imp_le)
  finally show ?thesis
    by (simp add: algebra_simps)
qed


lemma in_row_textures:
  "t \<in> set (row_textures b fw fh n r) \<Longrightarrow> \<exists>i. 0 \<le> i \<and> i < n \<and> t = frame_texture b fw fh r i"
  by (auto simp: row_textures_def)

lemma createFrameTextures_Some:
  "frameWidth \<noteq> 0 \<Longrightarrow> frameHeight \<noteq> 0 \<Longrightarrow>
     createFrameTextures b frameWidth frameHeight ds =
       Some \<lparr>textureData = row_loop b frameWidth frameHeight ds (width b div frameWidth)
                             (height b div frameHeight) 0 [],
             frameCount = width b div frameWidth\<rparr>"
  by (simp add: createFrameTextures_def Let_def)

lemma sliced_binding:
  assumes "(k, seq) \<in> set (row_loop b fw fh ds n m 0 [])"
  shows "\<exists>r. 0 \<le> r \<and> r < m \<and> k = direction_key ds r \<and> seq = row_textures b fw fh n r"
  using row_loop_bindings [OF assms] by simp

lemma frame_texture_within:
  assumes "0 < fw" "0 < fh" "0 \<le> r" "r < height b div fh" "0 \<le> i" "i < width b div fw"
  shows "within_image b (frame_texture b fw fh r i)"
proof -
  from assms have "i * fw + fw \<le> width b" "r * fh + fh \<le> height b"
    by (simp_all add: div_mult_le_int)
  with assms show ?thesis
    by (simp add: frame_texture_def)
qed

text \<open>
  C9: for positive frame dimensions the slicer returns
  \<open>frameCount = floor(image.width / frameWidth)\<close>, and every texture it produces is the
  rectangle at \<open>(column * frameWidth, row * frameHeight)\<close> of size
  \<open>frameWidth \<times> frameHeight\<close> for a column below \<open>frameCount\<close> and a row below
  \<open>rowCount\<close>, and lies fully inside the image.
\<close>

theorem slice_regions_within_image:
  assumes "0 < frameWidth" and "0 < frameHeight"
  shows "\<exists>res. createFrameTextures baseTexture frameWidth frameHeight directions = Some res \<and>
           frameCount res = width baseTexture div frameWidth \<and>
           (\<forall>(k, seq) \<in> set (textureData res). \<forall>t \<in> set seq.
              (\<exists>row column.
                  0 \<le> row \<and> row < height baseTexture div frameHeight \<and>
                  0 \<le> column \<and> column < frameCount res \<and>
                  t = Texture baseTexture
                        \<lparr>rect_x = column * frameWidth, rect_y = row * frameHeight,
                         rect_width = frameWidth, rect_height = frameHeight\<rparr>) \<and>
              within_image baseTexture t)"
proof -
  let ?n = "width baseTexture div frameWidth"
  let ?m = "height baseTexture div frameHeight"
  let ?td = "row_loop baseTexture frameWidth frameHeight directions ?n ?m 0 []"
  have region: "(\<exists>row column.
                  0 \<le> row \<and> row < ?m \<and> 0 \<le> column \<and> column < ?n \<and>
                  t = Texture baseTexture
                        \<lparr>rect_x = column * frameWidth, rect_y = row * frameHeight,
                         rect_width = frameWidth, rect_height = frameHeight\<rparr>) \<and>
              within_image baseTexture t"
    if "(k, seq) \<in> set ?td" and "t \<in> set seq" for k seq t
  proof -
    from that(1) obtain r where r: "0 \<le> r" "r < ?m"
        and seq: "seq = row_textures baseTexture frameWidth frameHeight ?n r"
      using sliced_binding by blast
    from that(2) seq obtain i where i: "0 \<le> i" "i < ?n"
        and t: "t = frame_texture baseTexture frameWidth frameHeight r i"
      using in_row_textures by blast
    from assms r i have "within_image baseTexture (frame_texture baseTexture frameWidth frameHeight r i)"
      by (rule frame_texture_within)
    with r i t show ?thesis
      unfolding frame_texture_def by blast
  qed
  from assms have "createFrameTextures baseTexture frameWidth frameHeight directions =
      Some \<lparr>textureData = ?td, frameCount = ?n\<rparr>"
    by (simp add: createFrameTextures_Some)
  with region show ?thesis
    by auto
qed

text \<open>The statement at a 130 x 70 image cut into 64 x 64 frames.\<close>

theorem slice_regions_within_image_witness:
  "\<exists>res. createFrameTextures \<lparr>width = 130, height = 70\<rparr> 64 64 [''up''] = Some res \<and>
         frameCount res = 2 \<and>
         (\<forall>(k, seq) \<in> set (textureData res). \<forall>t \<in> set seq.
            within_image \<lparr>width = 130, height = 70\<rparr> t)"
  using slice_regions_within_image [of 64 64 "\<lparr>width = 130, height = 70\<rparr>" "[''up'']"]
  by fastforce

text \<open>
  C4 (as amended): for positive frame dimensions and an image of non-negative size the
  slicer returns without error and binds every direction key to exactly \<open>frameCount\<close>
  textures. No key is bound to an empty sequence when the image is at least one frame
  wide; when it is narrower, \<open>frameCount\<close> is 0 and every key of the mapping is stored
  with an empty sequence rather than omitted. The mapping is empty exactly when the image
  is less than one frame high.
\<close>

theorem slice_sequences_have_frameCount_regions:
  assumes "0 < frameWidth" and "0 < frameHeight"
    and "0 \<le> width baseTexture" and "0 \<le> height baseTexture"
  shows "\<exists>res. createFrameTextures baseTexture frameWidth frameHeight directions = Some res \<and>
           (\<forall>(k, seq) \<in> set (textureData res). length seq = nat (frameCount res)) \<and>
           (frameWidth \<le> width baseTexture \<longrightarrow>
              (\<forall>(k, seq) \<in> set (textureData res). seq \<noteq> [])) \<and>
           (width baseTexture < frameWidth \<longrightarrow>
              frameCount res = 0 \<and> (\<forall>(k, seq) \<in> set (textureData res). seq = [])) \<and>
           (textureData res = [] \<longleftrightarrow> height baseTexture < frameHeight)"
proof -
  let ?n = "width baseTexture div frameWidth"
  let ?m = "height baseTexture div frameHeight"
  let ?td = "row_loop baseTexture frameWidth frameHeight directions ?n ?m 0 []"
  have len: "length seq = nat ?n" if "(k, seq) \<in> set ?td" for k seq
    using sliced_binding [OF that] by (auto simp: length_row_textures)
  have big: "0 < ?n" if "frameWidth \<le> width baseTexture"
    using that assms(1) by (simp add: pos_imp_zdiv_pos_iff)
  have small: "?n = 0" if "width baseTexture < frameWidth"
    using that assms(3) by (simp add: div_pos_pos_trivial)
  have rows: "?td = [] \<longleftrightarrow> height baseTexture < frameHeight"
  proof (cases "height baseTexture < frameHeight")
    case True
    with assms(4) have "?m = 0"
      by (simp add: div_pos_pos_trivial)
    with True show ?thesis
      by (simp add: row_loop_done)
  next
    case False
    with assms(2) have "0 < ?m"
      by (simp add: pos_imp_zdiv_pos_iff)
    then have "?td \<noteq> []"
      by (rule row_loop_nonempty)
    with False show ?thesis
      by simp
  qed
  from assms have "createFrameTextures baseTexture frameWidth frameHeight directions =
      Some \<lparr>textureData = ?td, frameCount = ?n\<rparr>"
    by (simp add: createFrameTextures_Some)
  with len big small rows show ?thesis
    by fastforce
qed

text \<open>The statement at a 130 x 70 image cut into 64 x 64 frames.\<close>

theorem slice_sequences_have_frameCount_regions_witness:
  "\<exists>res. createFrameTextures \<lparr>width = 130, height = 70\<rparr> 64 64 [''up''] = Some res \<and>
         frameCount res = 2 \<and>
         (\<forall>(k, seq) \<in> set (textureData res). length seq = 2 \<and> seq \<noteq> []) \<and>
         textureData res \<noteq> []"
proof -
  let ?b = "\<lparr>width = 130, height = 70\<rparr>"
  have "\<exists>res. createFrameTextures ?b 64 64 [''up''] = Some res \<and>
           (\<forall>(k, seq) \<in> set (textureData res). length seq = nat (frameCount res)) \<and>
           (\<forall>(k, seq) \<in> set (textureData res). seq \<noteq> []) \<and>
           textureData res \<noteq> []"
    using slice_sequences_have_frameCount_regions [of 64 64 ?b "[''up'']"] by simp
  then obtain res where res: "createFrameTextures ?b 64 64 [''up''] = Some res"
    and len: "\<forall>(k, seq) \<in> set (textureData res). length seq = nat (frameCount res)"
    and ne: "\<forall>(k, seq) \<in> set (textureData res). seq \<noteq> []"
    and rows: "textureData res \<noteq> []"
    by blast
  from res have n: "frameCount res = 2"
    by (auto simp: createFrameTextures_def Let_def)
  from len ne n have "\<forall>(k, seq) \<in> set (textureData res). length seq = 2 \<and> seq \<noteq> []"
    by auto
  with res n rows show ?thesis
    by blast
qed

text \<open>
  C4 as stated fails: a 10 x 64 image cut into 64 x 64 frames has one row and no column,
  and the slicer stores the key \<open>up\<close> with an empty sequence.
\<close>

theorem slice_stores_empty_rows:
  "createFrameTextures \<lparr>width = 10, height = 64\<rparr> 64 64 [''up'', ''left'', ''down'', ''right'']
     = Some \<lparr>textureData = [(''up'', [])], frameCount = 0\<rparr>"
  by (simp add: createFrameTextures_def Let_def row_loop.simps frame_loop.simps direction_key_def)

text \<open>
  C2 (as amended): for positive frame dimensions the keys of the output are the keys of
  the rows \<open>0 .. rowCount - 1\<close>, where row \<open>r\<close> has the key \<open>directionLabels[r]\<close> when
  \<open>r < len(directionLabels)\<close> and the key \<open>undefined\<close> beyond the label list; each key
  is bound to the textures of the last row that carries it. So when \<open>rowCount\<close> exceeds
  \<open>len(directionLabels)\<close> the rows beyond the list are not dropped: the mapping holds
  the key \<open>undefined\<close>, bound to the textures of the last row. No error is raised.
\<close>

theorem slice_row_keys:
  assumes "0 < frameWidth" and "0 < frameHeight"
  shows "\<exists>res. createFrameTextures baseTexture frameWidth frameHeight directions = Some res \<and>
           fst ` set (textureData res)
             = direction_key directions ` {0..<height baseTexture div frameHeight} \<and>
           (\<forall>r. 0 \<le> r \<and> r < height baseTexture div frameHeight \<and>
                (\<forall>r'. r < r' \<and> r' < height baseTexture div frameHeight
                      \<longrightarrow> direction_key directions r' \<noteq> direction_key directions r)
                \<longrightarrow> map_of (textureData res) (direction_key directions r)
                      = Some (row_textures baseTexture frameWidth frameHeight (frameCount res) r)) \<and>
           (int (length directions) < height baseTexture div frameHeight \<longrightarrow>
              map_of (textureData res) ''undefined''
                = Some (row_textures baseTexture frameWidth frameHeight (frameCount res)
                          (height baseTexture div frameHeight - 1)))"
proof -
  let ?n = "width baseTexture div frameWidth"
  let ?m = "height baseTexture div frameHeight"
  let ?td = "row_loop baseTexture frameWidth frameHeight directions ?n ?m 0 []"
  have keys: "fst ` set ?td = direction_key directions ` {0..<?m}"
    by (simp add: row_loop_keys)
  have last_row: "map_of ?td (direction_key directions r)
                    = Some (row_textures baseTexture frameWidth frameHeight ?n r)"
    if "0 \<le> r" and "r < ?m"
      and "\<forall>r'. r < r' \<and> r' < ?m \<longrightarrow> direction_key directions r' \<noteq> direction_key directions r"
    for r
    using that by (rule row_loop_last_writer)
  have beyond: "map_of ?td ''undefined''
                  = Some (row_textures baseTexture frameWidth frameHeight ?n (?m - 1))"
    if "int (length directions) < ?m"
  proof -
    from that have "\<not> nat (?m - 1) < length directions"
      by linarith
    then have k: "direction_key directions (?m - 1) = ''undefined''"
      by (simp add: direction_key_def)
    from that have first: "0 \<le> ?m - 1" and last: "?m - 1 < ?m"
      by simp_all
    have none: "\<forall>r'. ?m - 1 < r' \<and> r' < ?m
                  \<longrightarrow> direction_key directions r' \<noteq> direction_key directions (?m - 1)"
      by auto
    have "map_of ?td (direction_key directions (?m - 1))
                 = Some (row_textures baseTexture frameWidth frameHeight ?n (?m - 1))"
      using first last none by (rule row_loop_last_writer)
    with k show ?thesis
      by simp
  qed
  from assms have "createFrameTextures baseTexture frameWidth frameHeight directions =
      Some \<lparr>textureData = ?td, frameCount = ?n\<rparr>"
    by (simp add: createFrameTextures_Some)
  with keys last_row beyond show ?thesis
    by simp
qed

text \<open>The statement at a 64 x 200 image (three rows) with the single label \<open>up\<close>.\<close>

theorem slice_row_keys_witness:
  "\<exists>res. createFrameTextures \<lparr>width = 64, height = 200\<rparr> 64 64 [''up''] = Some res \<and>
         fst ` set (textureData res) = {''up'', ''undefined''} \<and>
         map_of (textureData res) ''up''
           = Some [Texture \<lparr>width = 64, height = 200\<rparr>
                     \<lparr>rect_x = 0, rect_y = 0, rect_width = 64, rect_height = 64\<rparr>] \<and>
         map_of (textureData res) ''undefined''
           = Some [Texture \<lparr>width = 64, height = 200\<rparr>
                     \<lparr>rect_x = 0, rect_y = 128, rect_width = 64, rect_height = 64\<rparr>]"
proof -
  let ?b = "\<lparr>width = 64, height = 200\<rparr>"
  have three: "{0..<3::int} = {0, 1, 2}"
    by auto
  have keys: "direction_key [''up''] ` {0..<3} = {''up'', ''undefined''}"
    unfolding three by (auto simp: direction_key_def)
  have up: "\<forall>r'. (0::int) < r' \<and> r' < 3 \<longrightarrow> direction_key [''up''] r' \<noteq> direction_key [''up''] 0"
    by (simp add: direction_key_def)
  have "\<exists>res. createFrameTextures ?b 64 64 [''up''] = Some res \<and>
           fst ` set (textureData res) = direction_key [''up''] ` {0..<3} \<and>
           (\<forall>r. 0 \<le> r \<and> r < 3 \<and>
                (\<forall>r'. r < r' \<and> r' < 3 \<longrightarrow> direction_key [''up''] r' \<noteq> direction_key [''up''] r)
                \<longrightarrow> map_of (textureData res) (direction_key [''up''] r)
                      = Some (row_textures ?b 64 64 (frameCount res) r)) \<and>
           (map_of (textureData res) ''undefined''
                = Some (row_textures ?b 64 64 (frameCount res) 2))"
    using slice_row_keys [of 64 64 ?b "[''up'']"] by simp
  then obtain res where res: "createFrameTextures ?b 64 64 [''up''] = Some res"
    and k: "fst ` set (textureData res) = direction_key [''up''] ` {0..<3}"
    and r: "\<forall>r. 0 \<le> r \<and> r < 3 \<and>
                (\<forall>r'. r < r' \<and> r' < 3 \<longrightarrow> direction_key [''up''] r' \<noteq> direction_key [''up''] r)
                \<longrightarrow> map_of (textureData res) (direction_key [''up''] r)
                      = Some (row_textures ?b 64 64 (frameCount res) r)"
    and u: "map_of (textureData res) ''undefined''
                = Some (row_textures ?b 64 64 (frameCount res) 2)"
    by blast
  from res have n: "frameCount res = 1"
    by (auto simp: createFrameTextures_def Let_def)
  from r have "(0::int) \<le> 0 \<and> (0::int) < 3 \<and>
                (\<forall>r'. 0 < r' \<and> r' < 3 \<longrightarrow> direction_key [''up''] r' \<noteq> direction_key [''up''] 0)
                \<longrightarrow> map_of (textureData res) (direction_key [''up''] 0)
                      = Some (row_textures ?b 64 64 (frameCount res) 0)"
    by (rule spec)
  with up have "map_of (textureData res) (direction_key [''up''] 0)
                      = Some (row_textures ?b 64 64 (frameCount res) 0)"
    by simp
  then have up0: "map_of (textureData res) ''up'' = Some (row_textures ?b 64 64 1 0)"
    by (simp add: direction_key_def n)
  have rt0: "row_textures ?b 64 64 1 0
               = [Texture ?b \<lparr>rect_x = 0, rect_y = 0, rect_width = 64, rect_height = 64\<rparr>]"
    by (simp add: row_textures_def frame_texture_def upto_rec1)
  have rt2: "row_textures ?b 64 64 1 2
               = [Texture ?b \<lparr>rect_x = 0, rect_y = 128, rect_width = 64, rect_height = 64\<rparr>]"
    by (simp add: row_textures_def frame_texture_def upto_rec1)
  from k keys have k': "fst ` set (textureData res) = {''up'', ''undefined''}"
    by simp
  from u n rt2 have u': "map_of (textureData res) ''undefined''
           = Some [Texture ?b \<lparr>rect_x = 0, rect_y = 128, rect_width = 64, rect_height = 64\<rparr>]"
    by simp
  from up0 rt0 have up': "map_of (textureData res) ''up''
           = Some [Texture ?b \<lparr>rect_x = 0, rect_y = 0, rect_width = 64, rect_height = 64\<rparr>]"
    by simp
  from res k' up' u' show ?thesis
    by blast
qed

text \<open>
  C2 as stated fails: with two rows and the single label \<open>up\<close>, the second row is kept
  under the key \<open>undefined\<close>.
\<close>

theorem slice_keeps_rows_beyond_labels:
  "createFrameTextures \<lparr>width = 64, height = 128\<rparr> 64 64 [''up'']
     = Some \<lparr>textureData =
               [(''up'', [Texture \<lparr>width = 64, height = 128\<rparr>
                            \<lparr>rect_x = 0, rect_y = 0, rect_width = 64, rect_height = 64\<rparr>]),
                (''undefined'', [Texture \<lparr>width = 64, height = 128\<rparr>
                            \<lparr>rect_x = 0, rect_y = 64, rect_width = 64, rect_height = 64\<rparr>])],
             frameCount = 1\<rparr>"
  by (simp add: createFrameTextures_def Let_def row_loop.simps frame_loop.simps direction_key_def
        frame_texture_def)

section \<open>The controller\<close>

lemma resolveDirection_is_key:
  "resolveDirection this entry direction = Some d \<Longrightarrow> \<exists>seq. map_of (entry_textures entry) d = Some seq"
  by (cases "entry_textures entry")
     (auto simp: resolveDirection_def Let_def split: option.splits list.splits if_splits)


lemma changeAnimation_unknown:
  "map_of (animations this) animationName = None \<Longrightarrow>
     changeAnimation this animationName direction
       = (None, this\<lparr>console := console this @ [ErrorNoExiste animationName]\<rparr>)"
  by (simp add: changeAnimation_def)

lemma changeAnimation_undefined:
  "map_of (animations this) animationName = Some entry \<Longrightarrow>
   resolveDirection this entry direction = None \<Longrightarrow>
     changeAnimation this animationName direction = (Some TypeError, this)"
  by (simp add: changeAnimation_def Let_def)

lemma changeAnimation_same:
  "map_of (animations this) animationName = Some entry \<Longrightarrow>
   resolveDirection this entry direction = Some d \<Longrightarrow>
   currentAnimation this = Some animationName \<Longrightarrow> currentDirection this = d \<Longrightarrow>
     changeAnimation this animationName direction = (None, this)"
  by (simp add: changeAnimation_def Let_def)

lemma changeAnimation_swap:
  assumes "map_of (animations this) animationName = Some entry"
    and "resolveDirection this entry direction = Some d"
    and "map_of (entry_textures entry) d = Some seq"
    and "currentAnimation this \<noteq> Some animationName \<or> currentDirection this \<noteq> d"
  shows "changeAnimation this animationName direction =
           (None,
            this\<lparr>textures := seq,
                 animationSpeed := entry_speed entry,
                 currentFrame := min (currentFrame this) (int (length seq) - 1),
                 playing := playing this,
                 hostCalls := hostCalls this @
                   [SetTextures seq, SetAnimationSpeed (entry_speed entry),
                    (if playing this then GotoAndPlay else GotoAndStop)
                      (min (currentFrame this) (int (length seq) - 1))],
                 currentAnimation := Some animationName,
                 currentDirection := d\<rparr>)"
  using assms
  by (auto simp: changeAnimation_def Let_def set_textures_def set_animationSpeed_def
        gotoAndPlay_def gotoAndStop_def)


lemma running_at_frame_9_eq:
  "running_at_frame_9 =
     \<lparr>animations = [(''run'', run_entry), (''walk'', walk_entry)],
      currentAnimation = Some ''run'', currentDirection = ''down'', speed = 5,
      textures = replicate 12 EMPTY, animationSpeed = 0.15, playing = True, currentFrame = 9,
      visible = True,
      hostCalls = [SetVisible True, SetTextures (replicate 12 EMPTY), SetAnimationSpeed 0.15,
                   GotoAndPlay 0],
      console = []\<rparr>"
  by (simp add: running_at_frame_9_def addAnimation_def changeAnimation_def
        resolveDirection_def new_AnimatedCharacter_def truthy_def run_entry_def walk_entry_def
        set_visible_def set_textures_def set_animationSpeed_def gotoAndPlay_def Let_def)

text \<open>
  C1: when \<open>changeAnimation\<close> performs a real change (the target name or the resolved
  direction differs from the current pair), the play flag and the frame index \<open>k\<close> it
  works with are those of the state before the call; the sprite receives the target
  entry's sequence for the resolved direction and the entry's speed, and is sent to the
  frame \<open>min(k, L2 - 1)\<close>, \<open>L2\<close> the length of the new sequence, by \<open>gotoAndPlay\<close> if it
  was playing and by \<open>gotoAndStop\<close> if it was not; the new pair is then recorded.
\<close>

theorem changeAnimation_keeps_frame_position:
  assumes "map_of (animations this) animationName = Some entry"
    and "resolveDirection this entry direction = Some d"
    and "currentAnimation this \<noteq> Some animationName \<or> currentDirection this \<noteq> d"
  shows "\<exists>seq. map_of (entry_textures entry) d = Some seq \<and>
           changeAnimation this animationName direction =
             (None,
              this\<lparr>textures := seq,
                   animationSpeed := entry_speed entry,
                   currentFrame := min (currentFrame this) (int (length seq) - 1),
                   playing := playing this,
                   hostCalls := hostCalls this @
                     [SetTextures seq, SetAnimationSpeed (entry_speed entry),
                      (if playing this then GotoAndPlay else GotoAndStop)
                        (min (currentFrame this) (int (length seq) - 1))],
                   currentAnimation := Some animationName,
                   currentDirection := d\<rparr>)"
proof -
  from assms(2) obtain seq where seq: "map_of (entry_textures entry) d = Some seq"
    using resolveDirection_is_key by blast
  from assms(1) assms(2) seq assms(3) show ?thesis
    by (simp add: changeAnimation_swap)
qed

text \<open>A 12-frame run at frame index 9, switched to the 6-frame walk, lands on frame 5.\<close>

theorem changeAnimation_keeps_frame_position_witness:
  "currentFrame running_at_frame_9 = 9 \<and>
   length (textures running_at_frame_9) = 12 \<and>
   fst (changeAnimation running_at_frame_9 ''walk'' None) = None \<and>
   length (textures (snd (changeAnimation running_at_frame_9 ''walk'' None))) = 6 \<and>
   currentFrame (snd (changeAnimation running_at_frame_9 ''walk'' None)) = 5 \<and>
   playing (snd (changeAnimation running_at_frame_9 ''walk'' None)) \<and>
   hostCalls (snd (changeAnimation running_at_frame_9 ''walk'' None))
     = hostCalls running_at_frame_9
         @ [SetTextures (replicate 6 EMPTY), SetAnimationSpeed 0.1, GotoAndPlay 5]"
  using changeAnimation_keeps_frame_position
          [of running_at_frame_9 "''walk''" walk_entry None "''down''"]
  by (simp add: running_at_frame_9_eq walk_entry_def run_entry_def resolveDirection_def)








text \<open>
  With a truthy \<open>currentAnimation\<close>, \<open>addAnimation\<close> stores the entry and touches nothing
  else.
\<close>

lemma addAnimation_when_active:
  "truthy (currentAnimation this) \<Longrightarrow>
     addAnimation this name textureData0 frameCount0 speed0 =
       (None,
        this\<lparr>animations :=
               AList.update name
                 \<lparr>entry_textures = textureData0, entry_frameCount = frameCount0,
                  entry_speed = (case speed0 of None \<Rightarrow> 0.15 | Some v \<Rightarrow> v),
                  entry_directions = map fst textureData0\<rparr>
                 (animations this)\<rparr>)"
  by (simp add: addAnimation_def Let_def)





lemma map_of_key: "(map_of al k \<noteq> None) = (k \<in> set (map fst al))"
  by (simp add: map_of_eq_None_iff)

lemma state_invariant_iff:
  "state_invariant this \<longleftrightarrow>
     (\<forall>name. currentAnimation this = Some name \<longrightarrow>
        (\<exists>entry. map_of (animations this) name = Some entry \<and>
                 currentDirection this \<in> set (map fst (entry_textures entry))))"
  by (auto simp: state_invariant_def split: option.splits)

lemma changeAnimation_invariant:
  assumes "state_invariant this"
  shows "state_invariant (snd (changeAnimation this animationName direction))"
proof (cases "map_of (animations this) animationName")
  case None
  with assms show ?thesis
    by (simp add: changeAnimation_unknown state_invariant_iff)
next
  case (Some entry)
  show ?thesis
  proof (cases "resolveDirection this entry direction")
    case None
    with Some assms show ?thesis
      by (simp add: changeAnimation_undefined)
  next
    case d: (Some d)
    from d obtain seq where seq: "map_of (entry_textures entry) d = Some seq"
      using resolveDirection_is_key by blast
    then have key: "d \<in> set (map fst (entry_textures entry))"
      using map_of_key [of "entry_textures entry" d] by simp
    show ?thesis
    proof (cases "currentAnimation this = Some animationName \<and> currentDirection this = d")
      case True
      with Some d assms show ?thesis
        by (simp add: changeAnimation_same)
    next
      case False
      then have "currentAnimation this \<noteq> Some animationName \<or> currentDirection this \<noteq> d"
        by simp
      with Some d seq key show ?thesis
        by (simp add: changeAnimation_swap state_invariant_iff)
    qed
  qed
qed

lemma changeDirection_invariant:
  "state_invariant this \<Longrightarrow> state_invariant (snd (changeDirection this direction))"
  by (simp add: changeDirection_def changeAnimation_invariant split: option.splits)

lemma addAnimation_invariant:
  assumes "state_invariant this"
    and "currentAnimation this = Some name \<longrightarrow> currentDirection this \<in> set (map fst textureData0)"
  shows "state_invariant (snd (addAnimation this name textureData0 frameCount0 speed0))"
proof -
  let ?entry = "\<lparr>entry_textures = textureData0, entry_frameCount = frameCount0,
                 entry_speed = (case speed0 of None \<Rightarrow> 0.15 | Some v \<Rightarrow> v),
                 entry_directions = map fst textureData0\<rparr>"
  let ?this1 = "this\<lparr>animations := AList.update name ?entry (animations this)\<rparr>"
  from assms have stored: "state_invariant ?this1"
    by (auto simp: state_invariant_iff update_conv')
  then have "state_invariant (set_visible ?this1 True)"
    by (simp add: state_invariant_iff set_visible_def)
  then have "state_invariant
               (snd (changeAnimation (set_visible ?this1 True) name (Some (currentDirection ?this1))))"
    by (rule changeAnimation_invariant)
  with stored show ?thesis
    by (simp add: addAnimation_def Let_def)
qed

text \<open>
  C3 (as amended): the invariant (a non-null \<open>currentAnimation\<close> is a key of the registry
  and \<open>currentDirection\<close> is a key of that entry's mapping) is preserved by
  \<open>changeAnimation\<close> and by \<open>changeDirection\<close>, and by \<open>addAnimation\<close> unless it
  overwrites the entry of the current animation with a mapping that lacks the current
  direction.
\<close>

theorem invariant_preserved:
  assumes "state_invariant this"
  shows "state_invariant (snd (changeAnimation this animationName direction)) \<and>
         state_invariant (snd (changeDirection this direction1)) \<and>
         ((currentAnimation this = Some name \<longrightarrow>
             currentDirection this \<in> set (map fst textureData0)) \<longrightarrow>
          state_invariant (snd (addAnimation this name textureData0 frameCount0 speed0)))"
  using assms
  by (simp add: changeAnimation_invariant changeDirection_invariant addAnimation_invariant)

text \<open>The statement at the running character.\<close>

theorem invariant_preserved_witness:
  "state_invariant running_at_frame_9 \<and>
   state_invariant (snd (changeAnimation running_at_frame_9 ''walk'' (Some ''left''))) \<and>
   state_invariant (snd (changeDirection running_at_frame_9 ''up'')) \<and>
   state_invariant (snd (addAnimation running_at_frame_9 ''run''
                           [(''left'', [EMPTY]), (''down'', [EMPTY])] 1 None))"
proof -
  have inv: "state_invariant running_at_frame_9"
    by (simp add: running_at_frame_9_eq state_invariant_iff run_entry_def)
  have "currentDirection running_at_frame_9 \<in> set (map fst [(''left'', [EMPTY]), (''down'', [EMPTY])])"
    by (simp add: running_at_frame_9_eq)
  with inv invariant_preserved
         [OF inv, of "''walk''" "Some ''left''" "''up''" "''run''"
            "[(''left'', [EMPTY]), (''down'', [EMPTY])]" 1 None]
  show ?thesis
    by simp
qed

text \<open>
  C3 as stated fails: the character runs facing \<open>down\<close>; \<open>run\<close> is registered again
  with the direction \<open>left\<close> only, and \<open>currentDirection\<close> is left on \<open>down\<close>, which the
  entry no longer has.
\<close>

theorem overwrite_breaks_invariant:
  "state_invariant running_at_frame_9 \<and>
   currentAnimation (snd (addAnimation running_at_frame_9 ''run'' [(''left'', [EMPTY])] 1 None))
     = Some ''run'' \<and>
   currentDirection (snd (addAnimation running_at_frame_9 ''run'' [(''left'', [EMPTY])] 1 None))
     = ''down'' \<and>
   map_of (animations (snd (addAnimation running_at_frame_9 ''run'' [(''left'', [EMPTY])] 1 None)))
       ''run''
     = Some \<lparr>entry_textures = [(''left'', [EMPTY])], entry_frameCount = 1, entry_speed = 0.15,
             entry_directions = [''left'']\<rparr> \<and>
   \<not> state_invariant (snd (addAnimation running_at_frame_9 ''run'' [(''left'', [EMPTY])] 1 None))"
  by (simp add: running_at_frame_9_eq state_invariant_iff run_entry_def addAnimation_def
        truthy_def Let_def)

text \<open>
  C10: \<open>addAnimation\<close> called while \<open>currentAnimation\<close> is not \<open>null\<close> should only store
  the entry. The test of line 172 is \<open>!this.currentAnimation\<close>, which is also true of the
  empty string: after a first animation registered under the empty name,
  \<open>currentAnimation\<close> is the empty string, and the next \<open>addAnimation\<close> activates its
  animation again and replaces the sprite's sequence.
\<close>

theorem empty_name_activates_again:
  "currentAnimation (snd (addAnimation new_AnimatedCharacter '''' [(''down'', [EMPTY])] 1 None))
     = Some '''' \<and>
   textures (snd (addAnimation new_AnimatedCharacter '''' [(''down'', [EMPTY])] 1 None))
     = [EMPTY] \<and>
   currentAnimation
     (snd (addAnimation
             (snd (addAnimation new_AnimatedCharacter '''' [(''down'', [EMPTY])] 1 None))
             ''walk'' [(''down'', replicate 6 EMPTY)] 6 None))
     = Some ''walk'' \<and>
   textures
     (snd (addAnimation
             (snd (addAnimation new_AnimatedCharacter '''' [(''down'', [EMPTY])] 1 None))
             ''walk'' [(''down'', replicate 6 EMPTY)] 6 None))
     = replicate 6 EMPTY"
  by (simp add: addAnimation_def changeAnimation_def resolveDirection_def
        new_AnimatedCharacter_def truthy_def set_visible_def set_textures_def
        set_animationSpeed_def gotoAndPlay_def Let_def)

section \<open>The factory\<close>














end
